theory Spec2Isabelle
  imports Complex_Main
begin

section \<open>Text primitives\<close>

text \<open>
  Receipt text is modelled as ASCII: a \<^typ>\<open>string\<close> is a list of bytes, and the
  character tests below are the ASCII part of Python's \<^verbatim>\<open>str\<close> methods and of the
  classes of its \<^verbatim>\<open>re\<close> module.
\<close>

definition is_digit :: "char \<Rightarrow> bool" where
  "is_digit c = (48 \<le> (of_char c :: nat) \<and> (of_char c :: nat) \<le> 57)"

definition is_upper :: "char \<Rightarrow> bool" where
  "is_upper c = (65 \<le> (of_char c :: nat) \<and> (of_char c :: nat) \<le> 90)"

definition is_lower :: "char \<Rightarrow> bool" where
  "is_lower c = (97 \<le> (of_char c :: nat) \<and> (of_char c :: nat) \<le> 122)"

definition is_alpha :: "char \<Rightarrow> bool" where
  "is_alpha c = (is_upper c \<or> is_lower c)"

text \<open>\<^verbatim>\<open>str.isspace\<close> on ASCII: tab, LF, VT, FF, CR, the separators 0x1C..0x1F, space.\<close>

definition is_space :: "char \<Rightarrow> bool" where
  "is_space c = ((9 \<le> (of_char c :: nat) \<and> (of_char c :: nat) \<le> 13)
                 \<or> (28 \<le> (of_char c :: nat) \<and> (of_char c :: nat) \<le> 32))"

definition is_word :: "char \<Rightarrow> bool" where
  "is_word c = (is_alpha c \<or> is_digit c \<or> c = CHR ''_'')"

definition lower_char :: "char \<Rightarrow> char" where
  "lower_char c = (if is_upper c then char_of ((of_char c :: nat) + 32) else c)"

definition upper_char :: "char \<Rightarrow> char" where
  "upper_char c = (if is_lower c then char_of ((of_char c :: nat) - 32) else c)"

text \<open>\<^verbatim>\<open>str.lower\<close>\<close>

definition lower :: "string \<Rightarrow> string" where
  "lower s = map lower_char s"

text \<open>\<^verbatim>\<open>str.strip\<close> with no argument\<close>

definition strip :: "string \<Rightarrow> string" where
  "strip s = rev (dropWhile is_space (rev (dropWhile is_space s)))"

text \<open>\<^verbatim>\<open>str.isalpha\<close>: non-empty and every character a letter.\<close>

definition isalpha :: "string \<Rightarrow> bool" where
  "isalpha s = (s \<noteq> [] \<and> list_all is_alpha s)"

text \<open>\<^verbatim>\<open>needle in haystack\<close> on strings.\<close>

fun is_prefix :: "string \<Rightarrow> string \<Rightarrow> bool" where
  "is_prefix [] s = True"
| "is_prefix (k # ks) [] = False"
| "is_prefix (k # ks) (c # cs) = (k = c \<and> is_prefix ks cs)"

fun contains :: "string \<Rightarrow> string \<Rightarrow> bool" where
  "contains k [] = (k = [])"
| "contains k (c # cs) = (is_prefix k (c # cs) \<or> contains k cs)"

text \<open>
  \<^verbatim>\<open>int(s)\<close> on digit strings: optional surrounding white space around a non-empty
  run of decimal digits. Anything else is the \<^verbatim>\<open>ValueError\<close> branch. Python also
  reads a sign and single underscores between digits; a sign never reaches \<^verbatim>\<open>int\<close>
  from the date patterns, and an underscore can only come from the word group of the
  month-name pattern, where this model answers \<^verbatim>\<open>ValueError\<close>.
\<close>

definition digit_val :: "char \<Rightarrow> nat" where
  "digit_val c = (of_char c :: nat) - 48"

definition digits_val :: "string \<Rightarrow> nat" where
  "digits_val ds = foldl (\<lambda>a c. 10 * a + digit_val c) 0 ds"

definition py_int :: "string \<Rightarrow> nat option" where
  "py_int s = (let t = strip s in
     if t \<noteq> [] \<and> list_all is_digit t then Some (digits_val t) else None)"

section \<open>Regular expressions of the \<^verbatim>\<open>re\<close> module\<close>

text \<open>
  Only the constructs the program's patterns use. Matching is backtracking with
  greedy quantifiers: \<open>ms r s\<close> lists, in the order the engine tries them, every way
  \<open>r\<close> can match a prefix of \<open>s\<close>, as the remaining input together with the
  captured groups. The engine's answer is the head of that list.
\<close>

datatype cclass =
    Lit char
  | Digit
  | Space
  | Word
  | Dot
  | Range char char
  | OneOf "char list"

fun cmatch :: "cclass \<Rightarrow> char \<Rightarrow> bool" where
  "cmatch (Lit k) c = (c = k)"
| "cmatch Digit c = is_digit c"
| "cmatch Space c = is_space c"
| "cmatch Word c = is_word c"
| "cmatch Dot c = (c \<noteq> CHR 0x0A)"
| "cmatch (Range a b) c = ((of_char a :: nat) \<le> of_char c \<and> (of_char c :: nat) \<le> of_char b)"
| "cmatch (OneOf ks) c = (c \<in> set ks)"

datatype re =
    Cls cclass
  | Rep nat "nat option" cclass
  | Seq re re
  | Alt re re
  | Grp re
  | Eol
  | Eps

text \<open>
  \<open>Rep m n c\<close> is \<^verbatim>\<open>c{m,n}\<close> (no upper bound when \<open>n\<close> is \<open>None\<close>): the longest
  run first, then one character less at a time down to \<open>m\<close>.
\<close>

definition rep_greedy :: "nat \<Rightarrow> nat option \<Rightarrow> cclass \<Rightarrow> string \<Rightarrow> string list" where
  "rep_greedy m n c s =
     (let avail = length (takeWhile (cmatch c) s);
          hi = (case n of None \<Rightarrow> avail | Some k \<Rightarrow> min k avail)
      in map (\<lambda>k. drop k s) (rev [m ..< Suc hi]))"

fun ms :: "re \<Rightarrow> string \<Rightarrow> (string \<times> string list) list" where
  "ms (Cls c) s = (case s of [] \<Rightarrow> [] | x # xs \<Rightarrow> if cmatch c x then [(xs, [])] else [])"
| "ms (Rep m n c) s = map (\<lambda>r. (r, [])) (rep_greedy m n c s)"
| "ms (Seq a b) s =
     concat (map (\<lambda>(r1, g1). map (\<lambda>(r2, g2). (r2, g1 @ g2)) (ms b r1)) (ms a s))"
| "ms (Alt a b) s = ms a s @ ms b s"
| "ms (Grp a) s = map (\<lambda>(r, g). (r, take (length s - length r) s # g)) (ms a s)"
| "ms Eol s = (case s of [] \<Rightarrow> [([], [])]
                | x # xs \<Rightarrow> if x = CHR 0x0A then [(s, [])] else [])"
| "ms Eps s = [(s, [])]"

text \<open>\<open>Eol\<close> is \<^verbatim>\<open>$\<close> under \<^verbatim>\<open>re.MULTILINE\<close>: the end of the text or just before a line feed.\<close>

fun seqs :: "re list \<Rightarrow> re" where
  "seqs [] = Eps"
| "seqs [r] = r"
| "seqs (r # rs) = Seq r (seqs rs)"

definition lits :: "string \<Rightarrow> re" where
  "lits s = seqs (map (\<lambda>c. Cls (Lit c)) s)"

text \<open>\<^verbatim>\<open>re.match\<close>: the first way to match at the start of the text.\<close>

definition re_match :: "re \<Rightarrow> string \<Rightarrow> (string \<times> string list) option" where
  "re_match r s = (case ms r s of [] \<Rightarrow> None | m # _ \<Rightarrow> Some m)"

text \<open>\<^verbatim>\<open>re.search\<close>: the leftmost position where \<^verbatim>\<open>re.match\<close> succeeds.\<close>

fun re_search :: "re \<Rightarrow> string \<Rightarrow> (string \<times> string list) option" where
  "re_search r [] = re_match r []"
| "re_search r (c # cs) =
     (case re_match r (c # cs) of Some m \<Rightarrow> Some m | None \<Rightarrow> re_search r cs)"

text \<open>
  \<^verbatim>\<open>re.findall\<close>: the groups of every non-overlapping match, scanning from the left.
  After a match the scan resumes where the match ended. (None of the program's patterns
  can match the empty string; for such a match the scan records it and moves on by one
  character.)
\<close>

function findall :: "re \<Rightarrow> string \<Rightarrow> string list list" where
  "findall r s =
     (case re_match r s of
        None \<Rightarrow> (case s of [] \<Rightarrow> [] | _ # cs \<Rightarrow> findall r cs)
      | Some (rest, g) \<Rightarrow>
          if length rest < length s then g # findall r rest
          else g # (case s of [] \<Rightarrow> [] | _ # cs \<Rightarrow> findall r cs))"
  by pat_completeness auto
termination
  by (relation "measure (\<lambda>(r, s). length s)") auto

section \<open>Calendar dates\<close>

text \<open>
  A \<^verbatim>\<open>datetime\<close> at midnight. The constructor \<^verbatim>\<open>datetime(year, month, day)\<close> raises
  \<^verbatim>\<open>ValueError\<close> outside the calendar; that is \<open>None\<close> here.
\<close>

datatype datetime = Datetime (year: nat) (month: nat) (day: nat)

definition is_leap :: "nat \<Rightarrow> bool" where
  "is_leap y = (y mod 4 = 0 \<and> (y mod 100 \<noteq> 0 \<or> y mod 400 = 0))"

definition days_in_month :: "nat \<Rightarrow> nat \<Rightarrow> nat" where
  "days_in_month y m =
     (if m = 2 then (if is_leap y then 29 else 28)
      else if m = 4 \<or> m = 6 \<or> m = 9 \<or> m = 11 then 30 else 31)"

definition mk_datetime :: "nat \<Rightarrow> nat \<Rightarrow> nat \<Rightarrow> datetime option" where
  "mk_datetime y m d =
     (if 1 \<le> y \<and> y \<le> 9999 \<and> 1 \<le> m \<and> m \<le> 12 \<and> 1 \<le> d \<and> d \<le> days_in_month y m
      then Some (Datetime y m d) else None)"

text \<open>The order of \<^verbatim>\<open>datetime\<close> objects: year, then month, then day.\<close>

definition dt_le :: "datetime \<Rightarrow> datetime \<Rightarrow> bool" where
  "dt_le a b =
     (year a < year b \<or> (year a = year b \<and>
        (month a < month b \<or> (month a = month b \<and> day a \<le> day b))))"

text \<open>
  The directives of \<^verbatim>\<open>strptime\<close> as the standard library's \<^verbatim>\<open>_strptime.TimeRE\<close> spells
  them: \<^verbatim>\<open>%Y = (\d\d\d\d)\<close>, \<^verbatim>\<open>%m = (1[0-2]|0[1-9]|[1-9])\<close>,
  \<^verbatim>\<open>%d = (3[0-1]|[1-2]\d|0[1-9]|[1-9]| [1-9])\<close>.
\<close>

definition re_Y :: re where
  "re_Y = Grp (seqs [Cls Digit, Cls Digit, Cls Digit, Cls Digit])"

definition re_m :: re where
  "re_m = Grp (Alt (Seq (Cls (Lit CHR ''1'')) (Cls (Range CHR ''0'' CHR ''2'')))
              (Alt (Seq (Cls (Lit CHR ''0'')) (Cls (Range CHR ''1'' CHR ''9'')))
                   (Cls (Range CHR ''1'' CHR ''9''))))"

definition re_d :: re where
  "re_d = Grp (Alt (Seq (Cls (Lit CHR ''3'')) (Cls (Range CHR ''0'' CHR ''1'')))
              (Alt (Seq (Cls (Range CHR ''1'' CHR ''2'')) (Cls Digit))
              (Alt (Seq (Cls (Lit CHR ''0'')) (Cls (Range CHR ''1'' CHR ''9'')))
              (Alt (Cls (Range CHR ''1'' CHR ''9''))
                   (Seq (Cls (Lit CHR '' '')) (Cls (Range CHR ''1'' CHR ''9'')))))))"

text \<open>
  \<^verbatim>\<open>datetime.strptime(s, "%Y-%m-%d")\<close>: the format's expression must match at the start,
  nothing may remain unconverted, and the three numbers must form a calendar date.
  \<open>None\<close> is \<^verbatim>\<open>ValueError\<close>.
\<close>

definition strptime_ymd :: "string \<Rightarrow> datetime option" where
  "strptime_ymd s =
     (case re_match (seqs [re_Y, Cls (Lit CHR ''-''), re_m, Cls (Lit CHR ''-''), re_d]) s of
        None \<Rightarrow> None
      | Some (rest, g) \<Rightarrow>
          if rest \<noteq> [] then None
          else (case map py_int g of
                  [Some y, Some m, Some d] \<Rightarrow> mk_datetime y m d
                | _ \<Rightarrow> None))"

section \<open>The expense tracker\<close>

definition EXPENSE_CATEGORIES :: "string list" where
  "EXPENSE_CATEGORIES =
     [''Food & Dining'', ''Transportation'', ''Shopping'', ''Entertainment'',
      ''Bills & Utilities'', ''Healthcare'', ''Travel'', ''Education'',
      ''Business'', ''Personal Care'', ''Groceries'', ''Gas'', ''Other'']"

text \<open>
  An expense is the dictionary \<^verbatim>\<open>add_expense\<close> builds, with its five keys. Amounts are
  Python floats; they are modelled as exact rationals (no rounding, no NaN).
\<close>

record expense =
  date :: string
  amount :: rat
  category :: string
  vendor :: string
  description :: string

text \<open>
  The \<^verbatim>\<open>ValueError\<close>s the tracker raises, one constructor per message:
  "Amount cannot be negative", "Invalid category. Must be one of: ...",
  "Date must be in YYYY-MM-DD format", "start_date must be in YYYY-MM-DD format",
  "end_date must be in YYYY-MM-DD format".
\<close>

datatype error =
    InvalidAmount
  | InvalidCategory
  | InvalidDate
  | InvalidStartDate
  | InvalidEndDate

text \<open>
  The standard library behind the two storage formats, taken as parameters over a type
  \<open>'f\<close> of file contents:
  \<^item> \<open>csv_write\<close> is what a \<^verbatim>\<open>csv.writer\<close> leaves in the file for a list of rows,
    \<open>csv_read\<close> the rows a \<^verbatim>\<open>csv.reader\<close> yields (\<open>None\<close>: it raises);
  \<^item> \<open>float_str\<close> is \<^verbatim>\<open>str\<close> on a float, which the writer applies to a non-string
    cell, and \<open>float_parse\<close> is \<^verbatim>\<open>float\<close> on a string (\<open>None\<close>: \<^verbatim>\<open>ValueError\<close>);
  \<^item> \<open>json_dump\<close> and \<open>json_load\<close> are \<^verbatim>\<open>json.dump\<close> and \<^verbatim>\<open>json.load\<close> on a list of
    expense dictionaries (\<open>None\<close>: the load raises).
\<close>

record 'f stdlib =
  csv_write :: "string list list \<Rightarrow> 'f"
  csv_read :: "'f \<Rightarrow> string list list option"
  float_str :: "rat \<Rightarrow> string"
  float_parse :: "string \<Rightarrow> rat option"
  json_dump :: "expense list \<Rightarrow> 'f"
  json_load :: "'f \<Rightarrow> expense list option"

text \<open>
  The tracker object together with its data file: \<open>data_file\<close> is the content of
  \<^verbatim>\<open>self.data_file\<close> on disk, \<open>None\<close> when the file does not exist.
\<close>

record 'f tracker =
  data_file :: "'f option"
  storage_format :: string
  expenses :: "expense list"

definition fieldnames :: "string list" where
  "fieldnames = [''date'', ''amount'', ''category'', ''vendor'', ''description'']"

text \<open>\<^verbatim>\<open>DictWriter.writerows\<close>: the cells of one expense in the order of \<open>fieldnames\<close>.\<close>

definition expense_row :: "'f stdlib \<Rightarrow> expense \<Rightarrow> string list" where
  "expense_row lib e =
     [date e, float_str lib (amount e), category e, vendor e, description e]"

definition save_to_csv :: "'f stdlib \<Rightarrow> 'f tracker \<Rightarrow> 'f tracker" where
  "save_to_csv lib t =
     (if expenses t = [] then t
      else t\<lparr>data_file := Some (csv_write lib (fieldnames # map (expense_row lib) (expenses t)))\<rparr>)"

definition save_to_json :: "'f stdlib \<Rightarrow> 'f tracker \<Rightarrow> 'f tracker" where
  "save_to_json lib t = t\<lparr>data_file := Some (json_dump lib (expenses t))\<rparr>"

definition save_expenses :: "'f stdlib \<Rightarrow> 'f tracker \<Rightarrow> 'f tracker" where
  "save_expenses lib t =
     (if storage_format t = ''csv'' then save_to_csv lib t
      else if storage_format t = ''json'' then save_to_json lib t
      else t)"

text \<open>
  \<^verbatim>\<open>DictReader\<close>: the first row names the columns, every later non-empty row becomes a
  dictionary; \<^verbatim>\<open>_load_from_csv\<close> then replaces its \<^verbatim>\<open>amount\<close> by a float. A missing
  \<^verbatim>\<open>amount\<close> column is a \<^verbatim>\<open>KeyError\<close>, an unreadable amount a \<^verbatim>\<open>ValueError\<close>; both are
  \<open>None\<close>. A row that does not carry the other four keys as well has no counterpart in
  \<^typ>\<open>expense\<close>; the model answers \<open>None\<close> for it too.
\<close>

definition row_expense :: "'f stdlib \<Rightarrow> string list \<Rightarrow> string list \<Rightarrow> expense option" where
  "row_expense lib header row =
     (let d = map_of (zip header row) in
      case d ''amount'' of
        None \<Rightarrow> None
      | Some a \<Rightarrow>
          (case float_parse lib a of
             None \<Rightarrow> None
           | Some x \<Rightarrow>
               (case (d ''date'', d ''category'', d ''vendor'', d ''description'') of
                  (Some dt, Some c, Some v, Some ds) \<Rightarrow>
                    Some \<lparr>date = dt, amount = x, category = c, vendor = v, description = ds\<rparr>
                | _ \<Rightarrow> None)))"

fun read_rows :: "'f stdlib \<Rightarrow> string list \<Rightarrow> string list list \<Rightarrow> expense list option" where
  "read_rows lib header [] = Some []"
| "read_rows lib header (row # rows) =
     (if row = [] then read_rows lib header rows
      else (case row_expense lib header row of
              None \<Rightarrow> None
            | Some e \<Rightarrow> (case read_rows lib header rows of
                           None \<Rightarrow> None
                         | Some es \<Rightarrow> Some (e # es))))"

definition load_from_csv :: "'f stdlib \<Rightarrow> 'f \<Rightarrow> expense list option" where
  "load_from_csv lib f =
     (case csv_read lib f of
        None \<Rightarrow> None
      | Some [] \<Rightarrow> Some []
      | Some (header # rows) \<Rightarrow> read_rows lib header rows)"

definition load_from_json :: "'f stdlib \<Rightarrow> 'f \<Rightarrow> expense list option" where
  "load_from_json lib f = json_load lib f"

text \<open>
  \<^verbatim>\<open>_load_expenses\<close>: no file gives the empty list; so does any exception while loading,
  and so does a storage format other than the two known ones.
\<close>

definition load_expenses :: "'f stdlib \<Rightarrow> 'f tracker \<Rightarrow> 'f tracker" where
  "load_expenses lib t =
     (case data_file t of
        None \<Rightarrow> t\<lparr>expenses := []\<rparr>
      | Some f \<Rightarrow>
          (case (if storage_format t = ''csv'' then load_from_csv lib f
                 else if storage_format t = ''json'' then load_from_json lib f
                 else None) of
             None \<Rightarrow> t\<lparr>expenses := []\<rparr>
           | Some es \<Rightarrow> t\<lparr>expenses := es\<rparr>))"

text \<open>\<^verbatim>\<open>ExpenseTracker.__init__\<close> on a data file with content \<open>f\<close>.\<close>

definition init_tracker :: "'f stdlib \<Rightarrow> 'f option \<Rightarrow> string \<Rightarrow> 'f tracker" where
  "init_tracker lib f fmt =
     load_expenses lib \<lparr>data_file = f, storage_format = lower fmt, expenses = []\<rparr>"

text \<open>
  \<^verbatim>\<open>add_expense\<close>. \<open>today\<close> is \<^verbatim>\<open>datetime.now().strftime("%Y-%m-%d")\<close>. The result is
  the raised error or the returned expense, with the tracker as the call leaves it.
\<close>

definition add_expense ::
  "'f stdlib \<Rightarrow> string \<Rightarrow> 'f tracker \<Rightarrow> rat \<Rightarrow> string \<Rightarrow> string \<Rightarrow> string \<Rightarrow> string option
   \<Rightarrow> (error + expense) \<times> 'f tracker" where
  "add_expense lib today t amt cat vend descr dt =
     (if amt < 0 then (Inl InvalidAmount, t)
      else if cat \<notin> set EXPENSE_CATEGORIES then (Inl InvalidCategory, t)
      else
        (case (case dt of
                 None \<Rightarrow> Some today
               | Some d \<Rightarrow> (case strptime_ymd d of None \<Rightarrow> None | Some _ \<Rightarrow> Some d)) of
           None \<Rightarrow> (Inl InvalidDate, t)
         | Some d \<Rightarrow>
             (let e = \<lparr>date = d, amount = amt, category = cat, vendor = vend,
                       description = descr\<rparr>
              in (Inr e, save_expenses lib (t\<lparr>expenses := expenses t @ [e]\<rparr>)))))"

text \<open>
  \<^verbatim>\<open>view_expenses\<close>. A filter argument that is \<^verbatim>\<open>None\<close> or the empty string is falsy and
  its block is skipped. Each date block parses the date of every expense still in the
  list inside its \<^verbatim>\<open>try\<close>, so a stored date that does not parse raises the block's own
  error.
\<close>

definition filter_category :: "string option \<Rightarrow> expense list \<Rightarrow> error + expense list" where
  "filter_category c es =
     (case c of
        None \<Rightarrow> Inr es
      | Some k \<Rightarrow>
          if k = [] then Inr es
          else if k \<notin> set EXPENSE_CATEGORIES then Inl InvalidCategory
          else Inr (filter (\<lambda>e. category e = k) es))"

fun keep_dates :: "(datetime \<Rightarrow> bool) \<Rightarrow> expense list \<Rightarrow> expense list option" where
  "keep_dates p [] = Some []"
| "keep_dates p (e # es) =
     (case strptime_ymd (date e) of
        None \<Rightarrow> None
      | Some d \<Rightarrow> (case keep_dates p es of
                     None \<Rightarrow> None
                   | Some r \<Rightarrow> Some (if p d then e # r else r)))"

definition filter_start :: "string option \<Rightarrow> expense list \<Rightarrow> error + expense list" where
  "filter_start sd es =
     (case sd of
        None \<Rightarrow> Inr es
      | Some s \<Rightarrow>
          if s = [] then Inr es
          else (case strptime_ymd s of
                  None \<Rightarrow> Inl InvalidStartDate
                | Some start_dt \<Rightarrow>
                    (case keep_dates (\<lambda>d. dt_le start_dt d) es of
                       None \<Rightarrow> Inl InvalidStartDate
                     | Some r \<Rightarrow> Inr r)))"

definition filter_end :: "string option \<Rightarrow> expense list \<Rightarrow> error + expense list" where
  "filter_end ed es =
     (case ed of
        None \<Rightarrow> Inr es
      | Some s \<Rightarrow>
          if s = [] then Inr es
          else (case strptime_ymd s of
                  None \<Rightarrow> Inl InvalidEndDate
                | Some end_dt \<Rightarrow>
                    (case keep_dates (\<lambda>d. dt_le d end_dt) es of
                       None \<Rightarrow> Inl InvalidEndDate
                     | Some r \<Rightarrow> Inr r)))"

definition view_expenses ::
  "'f tracker \<Rightarrow> string option \<Rightarrow> string option \<Rightarrow> string option \<Rightarrow> error + expense list" where
  "view_expenses t cat start_date end_date =
     (case filter_category cat (expenses t) of
        Inl err \<Rightarrow> Inl err
      | Inr es1 \<Rightarrow>
          (case filter_start start_date es1 of
             Inl err \<Rightarrow> Inl err
           | Inr es2 \<Rightarrow> filter_end end_date es2))"

section \<open>Receipt text\<close>

text \<open>
  \<^verbatim>\<open>_load_vendor_categories\<close>: the dictionary literal, in the order it is written (the
  order a Python dictionary iterates in). No key occurs twice.
\<close>

definition vendor_categories :: "(string \<times> string) list" where
  "vendor_categories =
     [(''mcdonalds'', ''Food & Dining''), (''burger king'', ''Food & Dining''),
      (''starbucks'', ''Food & Dining''), (''subway'', ''Food & Dining''),
      (''pizza'', ''Food & Dining''), (''restaurant'', ''Food & Dining''),
      (''cafe'', ''Food & Dining''), (''diner'', ''Food & Dining''),
      (''walmart'', ''Groceries''), (''target'', ''Groceries''),
      (''kroger'', ''Groceries''), (''safeway'', ''Groceries''),
      (''grocery'', ''Groceries''), (''supermarket'', ''Groceries''),
      (''market'', ''Groceries''),
      (''shell'', ''Gas''), (''exxon'', ''Gas''), (''chevron'', ''Gas''),
      (''bp'', ''Gas''), (''gas station'', ''Gas''), (''fuel'', ''Gas''),
      (''uber'', ''Transportation''), (''lyft'', ''Transportation''),
      (''taxi'', ''Transportation''), (''bus'', ''Transportation''),
      (''metro'', ''Transportation''), (''transit'', ''Transportation''),
      (''amazon'', ''Shopping''), (''ebay'', ''Shopping''), (''best buy'', ''Shopping''),
      (''costco'', ''Shopping''), (''mall'', ''Shopping''), (''store'', ''Shopping''),
      (''pharmacy'', ''Healthcare''), (''cvs'', ''Healthcare''),
      (''walgreens'', ''Healthcare''), (''clinic'', ''Healthcare''),
      (''hospital'', ''Healthcare''), (''doctor'', ''Healthcare''),
      (''other'', ''Other'')]"

fun suggest_loop :: "(string \<times> string) list \<Rightarrow> string \<Rightarrow> string" where
  "suggest_loop [] vendor_lower = ''Other''"
| "suggest_loop ((keyword, cat) # rest) vendor_lower =
     (if contains keyword vendor_lower then cat else suggest_loop rest vendor_lower)"

definition suggest_category :: "string \<Rightarrow> string" where
  "suggest_category vend = suggest_loop vendor_categories (lower vend)"

text \<open>
  \<^verbatim>\<open>float(s)\<close> on the strings \<^verbatim>\<open>parse_amount\<close> passes to it: digits, optionally a point
  and more digits. The value is the exact decimal. Anything else is the \<^verbatim>\<open>ValueError\<close>
  branch.
\<close>

definition py_float :: "string \<Rightarrow> rat option" where
  "py_float s =
     (let ip = takeWhile is_digit s; rest = dropWhile is_digit s in
      if ip = [] then None
      else (case rest of
              [] \<Rightarrow> Some (of_nat (digits_val ip))
            | c # fp \<Rightarrow>
                if c = CHR ''.'' \<and> list_all is_digit fp
                then Some (of_nat (digits_val ip) + of_nat (digits_val fp) / 10 ^ length fp)
                else None))"








text \<open>\<^verbatim>\<open>str.split('\n')\<close>\<close>

fun split_lines :: "string \<Rightarrow> string list" where
  "split_lines [] = [[]]"
| "split_lines (c # cs) =
     (if c = CHR 0x0A then [] # split_lines cs
      else (case split_lines cs of [] \<Rightarrow> [[c]] | l # ls \<Rightarrow> (c # l) # ls))"

text \<open>
  \<^verbatim>\<open>str.title\<close>: a letter that follows a letter is lowered, any other letter is raised.
\<close>

fun title_from :: "bool \<Rightarrow> string \<Rightarrow> string" where
  "title_from prev_cased [] = []"
| "title_from prev_cased (c # cs) =
     (if is_lower c then (if prev_cased then c else upper_char c) # title_from True cs
      else if is_upper c then (if prev_cased then lower_char c else c) # title_from True cs
      else c # title_from False cs)"

definition title :: "string \<Rightarrow> string" where
  "title s = title_from False s"

text \<open>
  \<^verbatim>\<open>^\d+.*\<close> is only used with \<^verbatim>\<open>re.match\<close>, which matches at the start of the line, so
  the anchor adds nothing. The second pattern is \<^verbatim>\<open>\d{3}-\d{3}-\d{4}|\d{10}\<close>.
\<close>

definition re_leading_digits :: re where
  "re_leading_digits = Seq (Rep 1 None Digit) (Rep 0 None Dot)"

definition re_phone :: re where
  "re_phone =
     Alt (seqs [Rep 3 (Some 3) Digit, Cls (Lit CHR ''-''), Rep 3 (Some 3) Digit,
                Cls (Lit CHR ''-''), Rep 4 (Some 4) Digit])
         (Rep 10 (Some 10) Digit)"

fun vendor_loop :: "string list \<Rightarrow> string" where
  "vendor_loop [] = ''Unknown Vendor''"
| "vendor_loop (l # ls) =
     (let line = strip l in
      if length line > 2 \<and> re_match re_leading_digits line = None
      then (if re_search re_phone line = None then title line else vendor_loop ls)
      else vendor_loop ls)"

definition parse_vendor :: "string \<Rightarrow> string" where
  "parse_vendor text_in = vendor_loop (take 5 (split_lines text_in))"

text \<open>
  \<^verbatim>\<open>datetime.strptime(s, "%d %B %Y")\<close>, in an English locale: \<^verbatim>\<open>%B\<close> is the
  alternation of the full month names, longest first, a blank of the format is \<^verbatim>\<open>\s+\<close>,
  and the whole expression ignores case (the text is lowered before matching).
\<close>

definition month_names :: "(string \<times> nat) list" where
  "month_names =
     [(''january'', 1), (''february'', 2), (''march'', 3), (''april'', 4), (''may'', 5),
      (''june'', 6), (''july'', 7), (''august'', 8), (''september'', 9), (''october'', 10),
      (''november'', 11), (''december'', 12)]"

fun alts :: "re list \<Rightarrow> re" where
  "alts [] = Cls (OneOf [])"
| "alts [r] = r"
| "alts (r # rs) = Alt r (alts rs)"

definition re_B :: re where
  "re_B = Grp (alts (map lits
     [''september'', ''february'', ''november'', ''december'', ''january'', ''october'',
      ''august'', ''march'', ''april'', ''june'', ''july'', ''may'']))"

definition strptime_dBY :: "string \<Rightarrow> datetime option" where
  "strptime_dBY s =
     (case re_match (seqs [re_d, Rep 1 None Space, re_B, Rep 1 None Space, re_Y]) (lower s) of
        None \<Rightarrow> None
      | Some (rest, g) \<Rightarrow>
          if rest \<noteq> [] then None
          else (case g of
                  [d, b, y] \<Rightarrow>
                    (case (py_int d, map_of month_names b, py_int y) of
                       (Some dd, Some mm, Some yy) \<Rightarrow> mk_datetime yy mm dd
                     | _ \<Rightarrow> None)
                | _ \<Rightarrow> None))"

text \<open>
  \<^verbatim>\<open>strftime("%Y-%m-%d")\<close>: the year on four digits, month and day on two. (Some C
  libraries print a year below 1000 without the leading zeros.)
\<close>

definition digit_char :: "nat \<Rightarrow> char" where
  "digit_char n = char_of (48 + n mod 10)"

definition pad2 :: "nat \<Rightarrow> string" where
  "pad2 n = [digit_char (n div 10), digit_char n]"

definition pad4 :: "nat \<Rightarrow> string" where
  "pad4 n = [digit_char (n div 1000), digit_char (n div 100), digit_char (n div 10),
             digit_char n]"

definition strftime_ymd :: "datetime \<Rightarrow> string" where
  "strftime_ymd d = pad4 (year d) @ ''-'' @ pad2 (month d) @ ''-'' @ pad2 (day d)"

definition re_sep :: re where
  "re_sep = Cls (OneOf ''/-'')"

definition date_patterns :: "re list" where
  "date_patterns =
     [seqs [Grp (Rep 1 (Some 2) Digit), re_sep, Grp (Rep 1 (Some 2) Digit), re_sep,
            Grp (Rep 2 (Some 4) Digit)],
      seqs [Grp (Rep 4 (Some 4) Digit), re_sep, Grp (Rep 1 (Some 2) Digit), re_sep,
            Grp (Rep 1 (Some 2) Digit)],
      seqs [Grp (Rep 3 (Some 9) Word), Rep 1 None Space, Grp (Rep 1 (Some 2) Digit),
            Rep 0 (Some 1) (Lit CHR '',''), Rep 1 None Space, Grp (Rep 2 (Some 4) Digit)]]"

text \<open>\<^verbatim>\<open>datetime(int(y), int(m), int(d))\<close>; \<open>None\<close> when any part raises \<^verbatim>\<open>ValueError\<close>.\<close>

definition datetime_of :: "string \<Rightarrow> string \<Rightarrow> string \<Rightarrow> datetime option" where
  "datetime_of y m d =
     (case (py_int y, py_int m, py_int d) of
        (Some yy, Some mm, Some dd) \<Rightarrow> mk_datetime yy mm dd
      | _ \<Rightarrow> None)"

text \<open>
  The body of the \<^verbatim>\<open>try\<close> in \<^verbatim>\<open>parse_date\<close> for one match; \<open>None\<close> is the
  \<^verbatim>\<open>except (ValueError, IndexError): continue\<close>.
\<close>

fun date_of_match :: "string list \<Rightarrow> datetime option" where
  "date_of_match [g0, g1, g2] =
     (if isalpha g0 then strptime_dBY (g1 @ '' '' @ g0 @ '' '' @ g2)
      else if length g2 = 4 then
        (if length g0 = 4 then datetime_of g0 g1 g2
         else datetime_of g2 g0 g1)
      else
        (case py_int g2 of
           None \<Rightarrow> None
         | Some yr \<Rightarrow>
             (case (py_int g0, py_int g1) of
                (Some mm, Some dd) \<Rightarrow>
                  mk_datetime (if yr < 50 then yr + 2000 else yr + 1900) mm dd
              | _ \<Rightarrow> None)))"
| "date_of_match _ = None"

fun first_date :: "string list list \<Rightarrow> datetime option" where
  "first_date [] = None"
| "first_date (m # rest) =
     (case date_of_match m of Some d \<Rightarrow> Some d | None \<Rightarrow> first_date rest)"

fun date_loop :: "re list \<Rightarrow> string \<Rightarrow> datetime option" where
  "date_loop [] text_in = None"
| "date_loop (p # ps) text_in =
     (case first_date (findall p text_in) of
        Some d \<Rightarrow> Some d
      | None \<Rightarrow> date_loop ps text_in)"

text \<open>\<^verbatim>\<open>parse_date\<close>; \<open>today\<close> is \<^verbatim>\<open>datetime.now().strftime("%Y-%m-%d")\<close>.\<close>

definition parse_date :: "string \<Rightarrow> string \<Rightarrow> string" where
  "parse_date today text_in =
     (case date_loop date_patterns text_in of
        Some d \<Rightarrow> strftime_ymd d
      | None \<Rightarrow> today)"

section \<open>A library instance\<close>

text \<open>
  An instance of the library parameters, for running the tracker on concrete inputs: a
  file holds either the table handed to the CSV writer or the list handed to the JSON
  encoder, and an amount is printed with two decimals.
\<close>

function nat_str :: "nat \<Rightarrow> string" where
  "nat_str n = (if n < 10 then [digit_char n] else nat_str (n div 10) @ [digit_char n])"
  by pat_completeness auto
termination
  by (relation "measure (\<lambda>n. n)") auto

definition cents_str :: "rat \<Rightarrow> string" where
  "cents_str a = nat_str (nat \<lfloor>a\<rfloor>) @ ''.'' @ pad2 (nat \<lfloor>a * 100\<rfloor> mod 100)"

definition sample_lib :: "(string list list + expense list) stdlib" where
  "sample_lib =
     \<lparr>csv_write = Inl,
      csv_read = (\<lambda>f. case f of Inl rows \<Rightarrow> Some rows | Inr _ \<Rightarrow> None),
      float_str = cents_str,
      float_parse = py_float,
      json_dump = Inr,
      json_load = (\<lambda>f. case f of Inl _ \<Rightarrow> None | Inr es \<Rightarrow> Some es)\<rparr>"


definition empty_tracker :: "string \<Rightarrow> (string list list + expense list) tracker" where
  "empty_tracker fmt = \<lparr>data_file = None, storage_format = fmt, expenses = []\<rparr>"

section \<open>Reference predicates\<close>

text \<open>
  What a query selects, stated on one expense: each filter that is given and not empty
  must hold, the date bounds compared as calendar dates, both ends included.
\<close>

definition selected :: "string option \<Rightarrow> string option \<Rightarrow> string option \<Rightarrow> expense \<Rightarrow> bool" where
  "selected cat start_date end_date e =
     ((case cat of None \<Rightarrow> True | Some c \<Rightarrow> c = [] \<or> category e = c)
      \<and> (case start_date of
            None \<Rightarrow> True
          | Some s \<Rightarrow> s = [] \<or>
              (case (strptime_ymd s, strptime_ymd (date e)) of
                 (Some a, Some d) \<Rightarrow> dt_le a d
               | _ \<Rightarrow> False))
      \<and> (case end_date of
            None \<Rightarrow> True
          | Some s \<Rightarrow> s = [] \<or>
              (case (strptime_ymd s, strptime_ymd (date e)) of
                 (Some b, Some d) \<Rightarrow> dt_le d b
               | _ \<Rightarrow> False)))"

definition sample_tracker :: "(string list list + expense list) tracker" where
  "sample_tracker =
     \<lparr>data_file = None, storage_format = ''csv'',
      expenses =
        [\<lparr>date = ''2023-12-31'', amount = 60, category = ''Gas'', vendor = ''Shell'',
          description = ''''\<rparr>,
         \<lparr>date = ''2024-01-15'', amount = 5 / 2, category = ''Gas'', vendor = ''Shell'',
          description = ''fuel''\<rparr>,
         \<lparr>date = ''2024-01-01'', amount = 9, category = ''Groceries'', vendor = ''Kroger'',
          description = ''''\<rparr>,
         \<lparr>date = ''2024-01-31'', amount = 7, category = ''Gas'', vendor = ''Exxon'',
          description = ''''\<rparr>]\<rparr>"

text \<open>
  What disqualifies a receipt line as a vendor name, stated on the line itself: it starts
  with a digit, or somewhere in it stands a phone number, that is three digits, a dash,
  three digits, a dash and four digits, or ten digits in a row.
\<close>

definition starts_with_digit :: "string \<Rightarrow> bool" where
  "starts_with_digit s = (case s of [] \<Rightarrow> False | c # _ \<Rightarrow> is_digit c)"

definition digits_at :: "nat \<Rightarrow> string \<Rightarrow> bool" where
  "digits_at n s = (n \<le> length s \<and> list_all is_digit (take n s))"

definition dash_at :: "string \<Rightarrow> bool" where
  "dash_at s = (case s of [] \<Rightarrow> False | c # _ \<Rightarrow> c = CHR ''-'')"

definition phone_here :: "string \<Rightarrow> bool" where
  "phone_here s =
     ((digits_at 3 s \<and> dash_at (drop 3 s) \<and> digits_at 3 (drop 4 s) \<and> dash_at (drop 7 s)
        \<and> digits_at 4 (drop 8 s))
      \<or> digits_at 10 s)"

definition has_phone_token :: "string \<Rightarrow> bool" where
  "has_phone_token s = (\<exists>i. phone_here (drop i s))"


section \<open>Adding an expense\<close>

lemma expenses_save_expenses: "expenses (save_expenses lib t) = expenses t"
  by (simp add: save_expenses_def save_to_csv_def save_to_json_def)

text \<open>
  C1. For every amount that is not negative, every category of \<open>EXPENSE_CATEGORIES\<close>
  and every date string that \<^verbatim>\<open>strptime\<close> accepts for \<^verbatim>\<open>%Y-%m-%d\<close>, \<open>add_expense\<close>
  succeeds, returns the record whose five fields are the inputs, and leaves the expense
  list as it was with that record appended at the end.
\<close>

theorem add_expense_valid:
  assumes "0 \<le> amt" and "cat \<in> set EXPENSE_CATEGORIES" and "strptime_ymd d \<noteq> None"
  shows "\<exists>t'. add_expense lib today t amt cat vend descr (Some d)
             = (Inr \<lparr>date = d, amount = amt, category = cat, vendor = vend,
                     description = descr\<rparr>, t')
           \<and> expenses t' = expenses t @ [\<lparr>date = d, amount = amt, category = cat,
                                           vendor = vend, description = descr\<rparr>]"
  using assms by (auto simp: add_expense_def Let_def expenses_save_expenses)

theorem add_expense_valid_witness:
  "(0::rat) \<le> 5 / 2 \<and> ''Gas'' \<in> set EXPENSE_CATEGORIES \<and> strptime_ymd ''2024-01-15'' \<noteq> None
   \<and> (\<exists>t'. add_expense sample_lib ''2024-02-01'' (empty_tracker ''csv'') (5 / 2) ''Gas''
               ''Shell'' ''fuel'' (Some ''2024-01-15'')
             = (Inr \<lparr>date = ''2024-01-15'', amount = 5 / 2, category = ''Gas'',
                     vendor = ''Shell'', description = ''fuel''\<rparr>, t')
           \<and> expenses t' = expenses (empty_tracker ''csv'')
                @ [\<lparr>date = ''2024-01-15'', amount = 5 / 2, category = ''Gas'',
                    vendor = ''Shell'', description = ''fuel''\<rparr>])"
proof -
  have a: "(0::rat) \<le> 5 / 2" by simp
  have b: "''Gas'' \<in> set EXPENSE_CATEGORIES" by (simp add: EXPENSE_CATEGORIES_def)
  have c: "strptime_ymd ''2024-01-15'' \<noteq> None" by code_simp
  show ?thesis
    using a b c
      add_expense_valid [OF a b c, where lib = sample_lib and today = "''2024-02-01''"
        and t = "empty_tracker ''csv''" and vend = "''Shell''" and descr = "''fuel''"]
    by blast
qed

text \<open>
  C2. \<open>add_expense\<close> raises exactly when the amount is negative, or the category is not
  in \<open>EXPENSE_CATEGORIES\<close>, or a date was given and \<^verbatim>\<open>strptime\<close> rejects it. A negative
  amount always raises the amount error; otherwise a category outside the list always
  raises the category error; otherwise a given date that does not parse always raises the
  date error; and each error is raised in no other case. When no date is given the record
  carries today's date, and no date error occurs.
\<close>

theorem add_expense_fails_iff:
  "(isl (fst (add_expense lib today t amt cat vend descr dt)) \<longleftrightarrow>
      amt < 0 \<or> cat \<notin> set EXPENSE_CATEGORIES \<or> (\<exists>d. dt = Some d \<and> strptime_ymd d = None))
   \<and> (fst (add_expense lib today t amt cat vend descr dt) = Inl InvalidAmount
        \<longleftrightarrow> amt < 0)
   \<and> (fst (add_expense lib today t amt cat vend descr dt) = Inl InvalidCategory
        \<longleftrightarrow> \<not> amt < 0 \<and> cat \<notin> set EXPENSE_CATEGORIES)
   \<and> (fst (add_expense lib today t amt cat vend descr dt) = Inl InvalidDate
        \<longleftrightarrow> \<not> amt < 0 \<and> cat \<in> set EXPENSE_CATEGORIES
            \<and> (\<exists>d. dt = Some d \<and> strptime_ymd d = None))
   \<and> (\<not> amt < 0 \<and> cat \<in> set EXPENSE_CATEGORIES \<and> dt = None \<longrightarrow>
        fst (add_expense lib today t amt cat vend descr dt)
          = Inr \<lparr>date = today, amount = amt, category = cat, vendor = vend,
                  description = descr\<rparr>)"
  by (auto simp: add_expense_def Let_def split: option.splits)

theorem add_expense_fails_iff_witness:
  "fst (add_expense sample_lib ''2024-02-01'' (empty_tracker ''csv'') (- 1) ''Gas''
          ''Shell'' ''fuel'' (Some ''2024-02-30'')) = Inl InvalidAmount
   \<and> fst (add_expense sample_lib ''2024-02-01'' (empty_tracker ''csv'') (5 / 2) ''Petrol''
          ''Shell'' ''fuel'' (Some ''2024-02-30'')) = Inl InvalidCategory
   \<and> fst (add_expense sample_lib ''2024-02-01'' (empty_tracker ''csv'') (5 / 2) ''Gas''
          ''Shell'' ''fuel'' (Some ''2024-02-30'')) = Inl InvalidDate
   \<and> fst (add_expense sample_lib ''2024-02-01'' (empty_tracker ''csv'') (5 / 2) ''Gas''
          ''Shell'' ''fuel'' None)
       = Inr \<lparr>date = ''2024-02-01'', amount = 5 / 2, category = ''Gas'', vendor = ''Shell'',
               description = ''fuel''\<rparr>"
proof -
  have a: "\<not> (5 / 2 :: rat) < 0" by simp
  have a': "(- 1 :: rat) < 0" by simp
  have b: "''Gas'' \<in> set EXPENSE_CATEGORIES" by (simp add: EXPENSE_CATEGORIES_def)
  have b': "''Petrol'' \<notin> set EXPENSE_CATEGORIES" by (simp add: EXPENSE_CATEGORIES_def)
  have c: "strptime_ymd ''2024-02-30'' = None" by code_simp
  show ?thesis
    using a a' b b' c
      add_expense_fails_iff [of sample_lib "''2024-02-01''" "empty_tracker ''csv''"
        "- 1" "''Gas''" "''Shell''" "''fuel''" "Some ''2024-02-30''"]
      add_expense_fails_iff [of sample_lib "''2024-02-01''" "empty_tracker ''csv''"
        "5 / 2" "''Petrol''" "''Shell''" "''fuel''" "Some ''2024-02-30''"]
      add_expense_fails_iff [of sample_lib "''2024-02-01''" "empty_tracker ''csv''"
        "5 / 2" "''Gas''" "''Shell''" "''fuel''" "Some ''2024-02-30''"]
      add_expense_fails_iff [of sample_lib "''2024-02-01''" "empty_tracker ''csv''"
        "5 / 2" "''Gas''" "''Shell''" "''fuel''" None]
    by blast
qed

text \<open>
  C10. When \<open>add_expense\<close> raises, the tracker is exactly as before the call: the
  expense list is unchanged and the data file has not been written.
\<close>

theorem add_expense_atomic:
  assumes "isl (fst (add_expense lib today t amt cat vend descr dt))"
  shows "snd (add_expense lib today t amt cat vend descr dt) = t"
  using assms by (auto simp: add_expense_def Let_def split: option.splits if_splits)

theorem add_expense_atomic_witness:
  "isl (fst (add_expense sample_lib ''2024-02-01'' (empty_tracker ''json'') (- 1) ''Gas''
          ''Shell'' ''fuel'' None))
   \<and> snd (add_expense sample_lib ''2024-02-01'' (empty_tracker ''json'') (- 1) ''Gas''
          ''Shell'' ''fuel'' None) = empty_tracker ''json''"
proof -
  have a: "isl (fst (add_expense sample_lib ''2024-02-01'' (empty_tracker ''json'') (- 1)
             ''Gas'' ''Shell'' ''fuel'' None))"
    by (simp add: add_expense_def)
  show ?thesis using a add_expense_atomic [OF a] by blast
qed

section \<open>Suggesting a category\<close>

lemma vendor_categories_valid:
  "list_all (\<lambda>(k, c). c \<in> set EXPENSE_CATEGORIES) vendor_categories"
  by (simp add: vendor_categories_def EXPENSE_CATEGORIES_def)

lemma suggest_loop_valid:
  "list_all (\<lambda>(k, c). c \<in> set EXPENSE_CATEGORIES) rules
   \<Longrightarrow> suggest_loop rules v \<in> set EXPENSE_CATEGORIES"
  by (induction rules v rule: suggest_loop.induct) (auto simp: EXPENSE_CATEGORIES_def)

text \<open>
  C9. Whatever the vendor string, the category \<open>suggest_category\<close> returns is one of
  \<open>EXPENSE_CATEGORIES\<close>, so \<open>add_expense\<close> never rejects it as an invalid category.
\<close>

theorem suggest_category_valid:
  "suggest_category vend \<in> set EXPENSE_CATEGORIES
   \<and> fst (add_expense lib today t amt (suggest_category vend) vend descr dt)
       \<noteq> Inl InvalidCategory"
proof -
  have "suggest_category vend \<in> set EXPENSE_CATEGORIES"
    unfolding suggest_category_def
    by (rule suggest_loop_valid [OF vendor_categories_valid])
  then show ?thesis
    by (auto simp: add_expense_def Let_def split: option.splits)
qed

lemma suggest_loop_find:
  "suggest_loop rules v =
     (case find (\<lambda>(k, c). contains k v) rules of None \<Rightarrow> ''Other'' | Some (k, c) \<Rightarrow> c)"
  by (induction rules v rule: suggest_loop.induct) auto

lemma is_prefix_iff: "is_prefix k s \<longleftrightarrow> (\<exists>b. s = k @ b)"
  by (induction k s rule: is_prefix.induct) auto

lemma contains_iff: "contains k s \<longleftrightarrow> (\<exists>a b. s = a @ k @ b)"
proof (induction s)
  case Nil
  then show ?case by auto
next
  case (Cons c cs)
  show ?case
  proof
    assume "contains k (c # cs)"
    then consider "is_prefix k (c # cs)" | "contains k cs" by auto
    then show "\<exists>a b. c # cs = a @ k @ b"
    proof cases
      case 1
      then obtain b where "c # cs = k @ b" by (auto simp: is_prefix_iff)
      then have "c # cs = [] @ k @ b" by simp
      then show ?thesis by blast
    next
      case 2
      with Cons.IH obtain a b where "cs = a @ k @ b" by blast
      then have "c # cs = (c # a) @ k @ b" by simp
      then show ?thesis by blast
    qed
  next
    assume "\<exists>a b. c # cs = a @ k @ b"
    then obtain a b where ab: "c # cs = a @ k @ b" by blast
    show "contains k (c # cs)"
    proof (cases a)
      case Nil
      with ab have "is_prefix k (c # cs)" by (auto simp: is_prefix_iff)
      then show ?thesis by simp
    next
      case (Cons x a')
      with ab have "cs = a' @ k @ b" by simp
      with Cons.IH have "contains k cs" by blast
      then show ?thesis by simp
    qed
  qed
qed

text \<open>
  C4, as stated, fails at the vendor "Unknown Store": its lowered form contains the
  keyword "store", so the suggestion is not "Other".
\<close>

theorem suggest_category_unknown_store: "suggest_category ''Unknown Store'' \<noteq> ''Other''"
  by code_simp

text \<open>
  C4, amended. \<open>suggest_category\<close> lowers the vendor, scans the keyword table in the
  order it is written and returns the category of the first keyword that occurs as a
  substring of the lowered vendor, or "Other" when none occurs. "Shell Gas Station" gives
  "Gas", and "Unknown Store" gives "Shopping".
\<close>

theorem suggest_category_first_keyword:
  "suggest_category vend =
     (case find (\<lambda>(k, c). \<exists>a b. lower vend = a @ k @ b) vendor_categories of
        None \<Rightarrow> ''Other''
      | Some (k, c) \<Rightarrow> c)
   \<and> suggest_category ''Shell Gas Station'' = ''Gas''
   \<and> suggest_category ''Unknown Store'' = ''Shopping''"
proof -
  have eq: "(\<lambda>(k, c). contains k (lower vend)) = (\<lambda>(k, c). \<exists>a b. lower vend = a @ k @ b)"
    by (simp add: contains_iff)
  have "suggest_category vend =
     (case find (\<lambda>(k, c). \<exists>a b. lower vend = a @ k @ b) vendor_categories of
        None \<Rightarrow> ''Other''
      | Some (k, c) \<Rightarrow> c)"
    by (simp only: suggest_category_def suggest_loop_find eq)
  moreover have "suggest_category ''Shell Gas Station'' = ''Gas''" by code_simp
  moreover have "suggest_category ''Unknown Store'' = ''Shopping''" by code_simp
  ultimately show ?thesis by blast
qed

section \<open>Reading a date from receipt text\<close>

text \<open>
  C5 asks for a year-first reading when the first group has four digits. On the text
  "2024-01-15" the first pattern finds 24-01-15 (month 24, rejected), and the match
  2024-01-15 of the second pattern never reaches the year-first branch, which sits under
  the test that the third group has four digits: it is read as month 2024 and rejected. No
  date is built and the result is today's date.
\<close>

theorem parse_date_year_first: "parse_date today ''2024-01-15'' = today"
proof -
  have "date_loop date_patterns ''2024-01-15'' = None" by code_simp
  then show ?thesis by (simp add: parse_date_def)
qed

section \<open>Reading an amount from receipt text\<close>






section \<open>Querying expenses\<close>

lemma keep_dates_filter:
  "list_all (\<lambda>e. strptime_ymd (date e) \<noteq> None) es \<Longrightarrow>
   keep_dates p es =
     Some (filter (\<lambda>e. case strptime_ymd (date e) of None \<Rightarrow> False | Some d \<Rightarrow> p d) es)"
  by (induction es) (auto split: option.splits)

lemma list_all_filter: "list_all P es \<Longrightarrow> list_all P (filter Q es)"
  by (induction es) auto

text \<open>
  C7, as stated, fails when a filter is the empty string: the empty category is not in
  \<open>EXPENSE_CATEGORIES\<close> and the empty date does not parse, yet the query raises nothing
  and returns every expense.
\<close>

theorem view_expenses_empty_strings:
  "view_expenses sample_tracker (Some '''') (Some '''') (Some '''') = Inr (expenses sample_tracker)
   \<and> '''' \<notin> set EXPENSE_CATEGORIES \<and> strptime_ymd '''' = None"
proof -
  have "strptime_ymd '''' = None" by code_simp
  then show ?thesis
    by (simp add: view_expenses_def filter_category_def filter_start_def filter_end_def
        EXPENSE_CATEGORIES_def)
qed

text \<open>
  C7, amended. On a store whose expenses all carry a date that parses, a query with a
  non-empty category outside \<open>EXPENSE_CATEGORIES\<close> raises the category error; otherwise
  a non-empty start date that does not parse raises the start-date error; otherwise a
  non-empty end date that does not parse raises the end-date error; otherwise the query
  returns, in insertion order, exactly the expenses that satisfy every given non-empty
  filter, the date bounds included. A filter that is absent or the empty string is
  ignored.
\<close>

theorem view_expenses_filters:
  assumes "list_all (\<lambda>e. strptime_ymd (date e) \<noteq> None) (expenses t)"
  shows "view_expenses t cat start_date end_date =
     (if (\<exists>c. cat = Some c \<and> c \<noteq> [] \<and> c \<notin> set EXPENSE_CATEGORIES) then Inl InvalidCategory
      else if (\<exists>s. start_date = Some s \<and> s \<noteq> [] \<and> strptime_ymd s = None)
        then Inl InvalidStartDate
      else if (\<exists>s. end_date = Some s \<and> s \<noteq> [] \<and> strptime_ymd s = None)
        then Inl InvalidEndDate
      else Inr (filter (selected cat start_date end_date) (expenses t)))"
proof -
  let ?ok = "\<lambda>e. strptime_ymd (date e) \<noteq> None"
  have k: "\<And>p Q. keep_dates p (filter Q (expenses t)) =
     Some (filter (\<lambda>e. case strptime_ymd (date e) of None \<Rightarrow> False | Some d \<Rightarrow> p d)
             (filter Q (expenses t)))"
    by (rule keep_dates_filter) (rule list_all_filter [OF assms])
  have k0: "\<And>p. keep_dates p (expenses t) =
     Some (filter (\<lambda>e. case strptime_ymd (date e) of None \<Rightarrow> False | Some d \<Rightarrow> p d)
             (expenses t))"
    by (rule keep_dates_filter [OF assms])
  show ?thesis
    unfolding view_expenses_def filter_category_def filter_start_def filter_end_def
    by (cases cat; cases start_date; cases end_date)
       (auto simp: k k0 selected_def split: option.splits intro!: filter_cong)
qed

theorem view_expenses_filters_witness:
  "list_all (\<lambda>e. strptime_ymd (date e) \<noteq> None) (expenses sample_tracker)
   \<and> view_expenses sample_tracker (Some ''Gas'') (Some ''2024-01-01'') (Some ''2024-01-31'')
       = Inr [\<lparr>date = ''2024-01-15'', amount = 5 / 2, category = ''Gas'', vendor = ''Shell'',
                description = ''fuel''\<rparr>,
              \<lparr>date = ''2024-01-31'', amount = 7, category = ''Gas'', vendor = ''Exxon'',
                description = ''''\<rparr>]"
proof -
  have a: "list_all (\<lambda>e. strptime_ymd (date e) \<noteq> None) (expenses sample_tracker)"
    by code_simp
  have b: "''Gas'' \<in> set EXPENSE_CATEGORIES" by (simp add: EXPENSE_CATEGORIES_def)
  have c: "strptime_ymd ''2024-01-01'' \<noteq> None" by code_simp
  have d: "strptime_ymd ''2024-01-31'' \<noteq> None" by code_simp
  have e: "filter (selected (Some ''Gas'') (Some ''2024-01-01'') (Some ''2024-01-31''))
             (expenses sample_tracker)
       = [\<lparr>date = ''2024-01-15'', amount = 5 / 2, category = ''Gas'', vendor = ''Shell'',
                description = ''fuel''\<rparr>,
              \<lparr>date = ''2024-01-31'', amount = 7, category = ''Gas'', vendor = ''Exxon'',
                description = ''''\<rparr>]"
    by code_simp
  show ?thesis
    using a b c d e
      view_expenses_filters [OF a, of "Some ''Gas''" "Some ''2024-01-01''" "Some ''2024-01-31''"]
    by simp
qed

section \<open>Saving and loading\<close>






section \<open>Reading a vendor from receipt text\<close>

lemma takeWhile_length_iff:
  "n \<le> length (takeWhile P s) \<longleftrightarrow> n \<le> length s \<and> list_all P (take n s)"
  by (induction s arbitrary: n) (auto simp: take_Cons split: nat.splits)

lemma rep_greedy_exact:
  "rep_greedy n (Some n) c s =
     (if n \<le> length (takeWhile (cmatch c) s) then [drop n s] else [])"
  by (auto simp: rep_greedy_def Let_def min_def)

lemma ms_digits_exact:
  "ms (Rep n (Some n) Digit) s = (if digits_at n s then [(drop n s, [])] else [])"
proof -
  have "cmatch Digit = is_digit" by (intro ext) simp
  then show ?thesis
    by (simp add: rep_greedy_exact takeWhile_length_iff digits_at_def)
qed

lemma ms_dash:
  "ms (Cls (Lit CHR ''-'')) s = (if dash_at s then [(drop 1 s, [])] else [])"
  by (cases s) (simp_all add: dash_at_def)

lemma ms_re_phone: "ms re_phone s = [] \<longleftrightarrow> \<not> phone_here s"
  by (auto simp add: re_phone_def ms_digits_exact ms_dash phone_here_def
      simp del: ms.simps(1) ms.simps(2))

lemma re_match_None: "re_match r s = None \<longleftrightarrow> ms r s = []"
  by (simp add: re_match_def split: list.splits)

lemma re_search_None:
  "re_search r s = None \<longleftrightarrow> (\<forall>i \<le> length s. ms r (drop i s) = [])"
proof (induction s)
  case Nil
  then show ?case by (simp add: re_match_None)
next
  case (Cons c cs)
  have "(\<forall>i \<le> length (c # cs). ms r (drop i (c # cs)) = [])
        \<longleftrightarrow> ms r (c # cs) = [] \<and> (\<forall>i \<le> length cs. ms r (drop i cs) = [])"
  proof
    assume h: "\<forall>i \<le> length (c # cs). ms r (drop i (c # cs)) = []"
    from h have "ms r (drop 0 (c # cs)) = []" by blast
    moreover have "ms r (drop i cs) = []" if "i \<le> length cs" for i
      using h [rule_format, of "Suc i"] that by simp
    ultimately show "ms r (c # cs) = [] \<and> (\<forall>i \<le> length cs. ms r (drop i cs) = [])" by simp
  next
    assume h: "ms r (c # cs) = [] \<and> (\<forall>i \<le> length cs. ms r (drop i cs) = [])"
    show "\<forall>i \<le> length (c # cs). ms r (drop i (c # cs)) = []"
    proof (intro allI impI)
      fix i assume "i \<le> length (c # cs)"
      then show "ms r (drop i (c # cs)) = []" using h by (cases i) auto
    qed
  qed
  moreover have "re_search r (c # cs) = None
      \<longleftrightarrow> re_match r (c # cs) = None \<and> re_search r cs = None"
    by (auto split: option.splits)
  ultimately show ?case
    using Cons by (simp only: re_match_None)
qed

lemma phone_here_Nil: "\<not> phone_here []"
  by (simp add: phone_here_def digits_at_def)

lemma re_search_phone: "re_search re_phone s = None \<longleftrightarrow> \<not> has_phone_token s"
proof -
  have "(\<exists>i. phone_here (drop i s)) \<longleftrightarrow> (\<exists>i \<le> length s. phone_here (drop i s))"
  proof
    assume "\<exists>i. phone_here (drop i s)"
    then obtain i where i: "phone_here (drop i s)" by blast
    have "i \<le> length s"
    proof (rule ccontr)
      assume "\<not> i \<le> length s"
      then have "drop i s = []" by simp
      with i phone_here_Nil show False by simp
    qed
    with i show "\<exists>i \<le> length s. phone_here (drop i s)" by blast
  qed blast
  then show ?thesis
    by (simp add: re_search_None ms_re_phone has_phone_token_def)
qed

lemma rep_greedy_zero_nonempty: "rep_greedy 0 None c s \<noteq> []"
  by (simp add: rep_greedy_def Let_def)

lemma re_match_leading_digits:
  "re_match re_leading_digits s = None \<longleftrightarrow> \<not> starts_with_digit s"
proof -
  have a: "ms (Rep 0 None Dot) r \<noteq> []" for r
    by (simp add: rep_greedy_zero_nonempty)
  have b: "ms (Rep 1 None Digit) s = [] \<longleftrightarrow> \<not> starts_with_digit s"
    by (cases s) (auto simp: rep_greedy_def Let_def starts_with_digit_def)
  have "ms re_leading_digits s = [] \<longleftrightarrow> ms (Rep 1 None Digit) s = []"
    unfolding re_leading_digits_def ms.simps(3) using a
    by (cases "ms (Rep 1 None Digit) s") (auto simp del: ms.simps)
  with b show ?thesis by (simp add: re_match_None)
qed

lemma vendor_loop_find:
  "vendor_loop ls =
     (case find (\<lambda>l. 2 < length l \<and> \<not> starts_with_digit l \<and> \<not> has_phone_token l)
             (map strip ls) of
        None \<Rightarrow> ''Unknown Vendor''
      | Some l \<Rightarrow> title l)"
  by (induction ls) (auto simp: Let_def re_match_leading_digits re_search_phone)

text \<open>
  C6. For every text, \<open>parse_vendor\<close> looks at the first five lines only and returns, in
  title case, the first stripped line that is longer than two characters, does not start
  with a digit and holds no phone number; when no such line exists it returns "Unknown
  Vendor". The text "STARBUCKS / 123 Main St / Seattle, WA" (three lines) gives
  "Starbucks".
\<close>

theorem parse_vendor_first_line:
  "parse_vendor text_in =
     (case find (\<lambda>l. 2 < length l \<and> \<not> starts_with_digit l \<and> \<not> has_phone_token l)
             (map strip (take 5 (split_lines text_in))) of
        None \<Rightarrow> ''Unknown Vendor''
      | Some l \<Rightarrow> title l)
   \<and> parse_vendor (''STARBUCKS'' @ [CHR 0x0A] @ ''123 Main St'' @ [CHR 0x0A] @ ''Seattle, WA'')
       = ''Starbucks''"
proof -
  have "parse_vendor (''STARBUCKS'' @ [CHR 0x0A] @ ''123 Main St'' @ [CHR 0x0A] @ ''Seattle, WA'')
       = ''Starbucks''"
    by code_simp
  then show ?thesis
    by (simp only: parse_vendor_def vendor_loop_find simp_thms)
qed

end
